theory Spec2Isabelle
  imports Complex_Main "HOL-Library.Sublist" "HOL-Library.AList"
begin

section \<open>JavaScript values\<close>

text \<open>
  The relay (\<^verbatim>\<open>server.js\<close>) and the dashboard component handle JSON values only: request
  bodies parsed by \<^verbatim>\<open>express.json()\<close>, upstream bodies parsed by \<^verbatim>\<open>response.json()\<close>.
  A JSON value is a \<open>json\<close>; a JavaScript value that may also be \<^verbatim>\<open>undefined\<close> (the result
  of reading a property) is a \<open>json option\<close>, \<open>None\<close> being \<^verbatim>\<open>undefined\<close>.

  Numbers are elements of a type \<open>'n\<close> that stands for the numbers a JSON parser delivers
  (doubles, never \<^verbatim>\<open>NaN\<close>, the two zeros identified). The relay needs nothing of \<open>'n\<close> but
  a zero and numerals. The dashboard adds numbers: there \<open>'n\<close> is \<open>rat\<close>, and the
  rounding to doubles is written out.
  Strings are byte strings in UTF-8. An object is the list of its own properties in
  insertion order; a property is read with \<open>map_of\<close>.
\<close>

datatype 'n json =
    JNull
  | JBool bool
  | JNum 'n
  | JStr string
  | JArr "'n json list"
  | JObj "(string \<times> 'n json) list"

type_synonym 'n jsval = "'n json option"

text \<open>\<^verbatim>\<open>ToBoolean\<close>: the falsy values are \<^verbatim>\<open>undefined\<close>, \<^verbatim>\<open>null\<close>, \<^verbatim>\<open>false\<close>, \<^verbatim>\<open>0\<close> and \<^verbatim>\<open>''\<close>.\<close>

fun truthy_val :: "'n::zero json \<Rightarrow> bool" where
  "truthy_val JNull = False"
| "truthy_val (JBool b) = b"
| "truthy_val (JNum n) = (n \<noteq> 0)"
| "truthy_val (JStr s) = (s \<noteq> [])"
| "truthy_val (JArr xs) = True"
| "truthy_val (JObj kvs) = True"

fun truthy :: "'n::zero jsval \<Rightarrow> bool" where
  "truthy None = False"
| "truthy (Some v) = truthy_val v"

text \<open>
  Reading a property whose name is none of \<^verbatim>\<open>length\<close>, an array index or a method of a
  prototype: an object answers with its own property, every other value but
  \<^verbatim>\<open>null\<close> with \<^verbatim>\<open>undefined\<close>. Reading a property of \<^verbatim>\<open>null\<close> throws; the callers test
  for \<open>JNull\<close> before they use \<open>get_prop\<close>.
\<close>

fun get_prop :: "'n json \<Rightarrow> string \<Rightarrow> 'n jsval" where
  "get_prop (JObj kvs) k = map_of kvs k"
| "get_prop v k = None"

text \<open>
  The assignment \<^verbatim>\<open>data.k = v\<close> in sloppy mode, as the serialised value shows it: an
  object gets or replaces the property; on an array the property is set but
  \<^verbatim>\<open>JSON.stringify\<close> does not print it; on a primitive the assignment is ignored.
\<close>

fun set_prop :: "'n json \<Rightarrow> string \<Rightarrow> 'n json \<Rightarrow> 'n json" where
  "set_prop (JObj kvs) k v = JObj (AList.update k v kvs)"
| "set_prop d k v = d"

text \<open>An object literal: \<^verbatim>\<open>JSON.stringify\<close> leaves out a property whose value is \<^verbatim>\<open>undefined\<close>.\<close>

definition object_of :: "(string \<times> 'n jsval) list \<Rightarrow> 'n json" where
  "object_of fields = JObj (List.map_filter (\<lambda>(k, v). map_option (Pair k) v) fields)"

subsection \<open>Strings\<close>

text \<open>The decimal digits of a non-negative integer, as a template literal prints it.\<close>

fun show_nat :: "nat \<Rightarrow> string" where
  "show_nat n =
     (if n < 10 then [''0123456789'' ! n]
      else show_nat (n div 10) @ [''0123456789'' ! (n mod 10)])"

declare show_nat.simps [simp del]

text \<open>
  The white space and line terminators of ECMAScript, in UTF-8: TAB, LF, VT, FF, CR, SP,
  U+00A0, U+1680, U+2000 to U+200A, U+2028, U+2029, U+202F, U+205F, U+3000, U+FEFF.
\<close>

definition whitespace :: "string list" where
  "whitespace =
    [[CHR 0x09], [CHR 0x0A], [CHR 0x0B], [CHR 0x0C], [CHR 0x0D], [CHR 0x20],
     [CHR 0xC2, CHR 0xA0],
     [CHR 0xE1, CHR 0x9A, CHR 0x80],
     [CHR 0xE2, CHR 0x80, CHR 0x80], [CHR 0xE2, CHR 0x80, CHR 0x81],
     [CHR 0xE2, CHR 0x80, CHR 0x82], [CHR 0xE2, CHR 0x80, CHR 0x83],
     [CHR 0xE2, CHR 0x80, CHR 0x84], [CHR 0xE2, CHR 0x80, CHR 0x85],
     [CHR 0xE2, CHR 0x80, CHR 0x86], [CHR 0xE2, CHR 0x80, CHR 0x87],
     [CHR 0xE2, CHR 0x80, CHR 0x88], [CHR 0xE2, CHR 0x80, CHR 0x89],
     [CHR 0xE2, CHR 0x80, CHR 0x8A],
     [CHR 0xE2, CHR 0x80, CHR 0xA8], [CHR 0xE2, CHR 0x80, CHR 0xA9],
     [CHR 0xE2, CHR 0x80, CHR 0xAF],
     [CHR 0xE2, CHR 0x81, CHR 0x9F],
     [CHR 0xE3, CHR 0x80, CHR 0x80],
     [CHR 0xEF, CHR 0xBB, CHR 0xBF]]"

text \<open>\<open>strip tbl s\<close> removes from the front of \<open>s\<close> every leading occurrence of a word of \<open>tbl\<close>.\<close>

function strip :: "string list \<Rightarrow> string \<Rightarrow> string" where
  "strip tbl s =
     (case find (\<lambda>w. w \<noteq> [] \<and> prefix w s) tbl of
        None \<Rightarrow> s
      | Some w \<Rightarrow> strip tbl (drop (length w) s))"
  by pat_completeness auto
termination
proof (relation "measure (\<lambda>(tbl, s). length s)")
  show "wf (measure (\<lambda>(tbl, s). length s))" by simp
next
  fix tbl :: "string list" and s w :: string
  assume "find (\<lambda>w. w \<noteq> [] \<and> prefix w s) tbl = Some w"
  then have "w \<noteq> []" and "prefix w s"
    by (auto simp: find_Some_iff)
  then show "((tbl, drop (length w) s), (tbl, s)) \<in> measure (\<lambda>(tbl, s). length s)"
    by (cases s) (auto simp: prefix_def)
qed

declare strip.simps [simp del]

definition trimStart :: "string \<Rightarrow> string" where
  "trimStart s = strip whitespace s"

definition trimEnd :: "string \<Rightarrow> string" where
  "trimEnd s = rev (strip (map rev whitespace) (rev s))"

text \<open>\<^verbatim>\<open>String.prototype.trim\<close>.\<close>

definition trim :: "string \<Rightarrow> string" where
  "trim s = trimEnd (trimStart s)"

text \<open>A string is blank when it consists of white space only; the empty string is blank.\<close>

definition blank :: "string \<Rightarrow> bool" where
  "blank s = (\<exists>ws. set ws \<subseteq> set whitespace \<and> s = concat ws)"

section \<open>The relay\<close>

subsection \<open>The upstream call\<close>

text \<open>
  \<^verbatim>\<open>fetch(apiUrl, {method, headers, body})\<close> is a parameter of the handlers: a function
  from the request it is given to what the promise settles with. A rejection carries
  the error's message. Of a response the handlers read the status, the status text,
  \<^verbatim>\<open>headers.get(name)\<close> (\<open>None\<close> for \<^verbatim>\<open>null\<close>) and \<^verbatim>\<open>response.json()\<close>, which rejects (\<open>Inl\<close>,
  with the message) when the body is not JSON. The body of a request is kept as the
  JSON value that \<^verbatim>\<open>JSON.stringify\<close> prints.
\<close>

record 'n upstream_request =
  url :: string
  http_method :: string
  headers :: "(string \<times> 'n jsval) list"
  payload :: "'n json"

record 'n upstream_response =
  status :: nat
  statusText :: string
  headers_get :: "string \<Rightarrow> string option"
  json_result :: "string + 'n json"

datatype 'n fetch_result =
    Rejected string
  | Resolved "'n upstream_response"

text \<open>\<^verbatim>\<open>response.ok\<close>: the status is in the range 200 to 299.\<close>

definition ok :: "'n upstream_response \<Rightarrow> bool" where
  "ok r = (200 \<le> status r \<and> status r \<le> 299)"

subsection \<open>What a handler does\<close>

text \<open>
  A handler answers once, with \<^verbatim>\<open>res.status(c).json(b)\<close> (\<^verbatim>\<open>res.json(b)\<close> answers 200). Its
  outcome is that answer, the upstream requests it made, and the lines it wrote with
  \<^verbatim>\<open>console.warn\<close>. The lines of \<^verbatim>\<open>console.log\<close> and \<^verbatim>\<open>console.error\<close> are left out, except
  that reading \<^verbatim>\<open>data.success\<close> for one of them throws when \<^verbatim>\<open>data\<close> is \<^verbatim>\<open>null\<close>.
\<close>

record 'n http_reply =
  status_code :: nat
  reply_body :: "'n json"

record 'n outcome =
  reply :: "'n http_reply"
  calls :: "'n upstream_request list"
  warnings :: "string list"

definition respond ::
  "nat \<Rightarrow> 'n json \<Rightarrow> 'n upstream_request list \<Rightarrow> string list \<Rightarrow> 'n outcome" where
  "respond c b rqs ws = \<lparr>reply = \<lparr>status_code = c, reply_body = b\<rparr>, calls = rqs, warnings = ws\<rparr>"

text \<open>The two shapes of an error body: \<^verbatim>\<open>{success: false, error}\<close>, and the same with \<^verbatim>\<open>details\<close>.\<close>

definition failure :: "string \<Rightarrow> 'n json" where
  "failure msg = JObj [(''success'', JBool False), (''error'', JStr msg)]"

definition failure_details :: "string \<Rightarrow> string \<Rightarrow> 'n json" where
  "failure_details msg details =
     JObj [(''success'', JBool False), (''error'', JStr msg), (''details'', JStr details)]"

text \<open>The message of the \<^verbatim>\<open>TypeError\<close> that reading property \<open>k\<close> of \<^verbatim>\<open>null\<close> throws (V8).\<close>

definition null_read :: "string \<Rightarrow> string" where
  "null_read k =
     ''Cannot read properties of null (reading '' @ [CHR 0x27] @ k @ [CHR 0x27] @ '')''"

subsection \<open>\<^verbatim>\<open>POST /api/huawei/login\<close>\<close>

text \<open>\<^verbatim>\<open>a || b\<close> on the results of \<^verbatim>\<open>headers.get\<close>: \<^verbatim>\<open>null\<close> and the empty string are falsy.\<close>

definition or_else :: "string option \<Rightarrow> string option \<Rightarrow> string option" where
  "or_else a b = (case a of None \<Rightarrow> b | Some s \<Rightarrow> if s \<noteq> [] then a else b)"

text \<open>
  The request body is the list of the own properties of \<^verbatim>\<open>req.body\<close>, which
  \<^verbatim>\<open>express.json()\<close> makes an object or an array (the empty object when the request
  carries no JSON).
\<close>

definition login_request :: "'n jsval \<Rightarrow> 'n jsval \<Rightarrow> 'n upstream_request" where
  "login_request userName systemCode =
     \<lparr>url = ''https://intl.fusionsolar.huawei.com/thirdData/login'',
      http_method = ''POST'',
      headers = [(''Content-Type'', Some (JStr ''application/json'')),
                 (''User-Agent'', Some (JStr ''Solar-Monitor-App/1.0''))],
      payload = object_of [(''userName'', userName), (''systemCode'', systemCode)]\<rparr>"

text \<open>The handler from the point where \<^verbatim>\<open>response.json()\<close> has delivered \<open>data\<close>.\<close>

definition login_success ::
  "'n upstream_request \<Rightarrow> 'n upstream_response \<Rightarrow> 'n json \<Rightarrow> 'n outcome" where
  "login_success rq response data =
     (case data of
        JNull \<Rightarrow>
          respond 500 (failure_details ''Login proxy server error'' (null_read ''success'')) [rq] []
      | _ \<Rightarrow>
          (let xsrfToken =
                 or_else (or_else (headers_get response ''xsrf-token'')
                                  (headers_get response ''XSRF-TOKEN''))
                         (headers_get response ''X-XSRF-TOKEN'')
           in
           case xsrfToken of
             None \<Rightarrow> respond 200 data [rq] [''No XSRF token found in response headers'']
           | Some t \<Rightarrow>
               if t \<noteq> [] then respond 200 (set_prop data ''xsrfToken'' (JStr t)) [rq] []
               else respond 200 data [rq] [''No XSRF token found in response headers'']))"

text \<open>The handler from the point where \<^verbatim>\<open>fetch\<close> has settled.\<close>

definition login_relay :: "'n upstream_request \<Rightarrow> 'n fetch_result \<Rightarrow> 'n outcome" where
  "login_relay rq settled =
     (case settled of
        Rejected msg \<Rightarrow> respond 500 (failure_details ''Login proxy server error'' msg) [rq] []
      | Resolved response \<Rightarrow>
          if \<not> ok response then
            respond (status response)
              (failure (''Login API error: '' @ show_nat (status response) @ '' '' @
                        statusText response)) [rq] []
          else
            (case json_result response of
               Inl msg \<Rightarrow> respond 500 (failure_details ''Login proxy server error'' msg) [rq] []
             | Inr data \<Rightarrow> login_success rq response data))"

definition login_handler ::
  "('n upstream_request \<Rightarrow> 'n fetch_result) \<Rightarrow> (string \<times> 'n::zero json) list \<Rightarrow> 'n outcome" where
  "login_handler fetch body =
     (let userName = map_of body ''userName'';
          systemCode = map_of body ''systemCode''
      in
      if \<not> truthy userName \<or> \<not> truthy systemCode then
        respond 400 (failure ''Username and system code are required'') [] []
      else
        let rq = login_request userName systemCode in login_relay rq (fetch rq))"

subsection \<open>\<^verbatim>\<open>POST /api/huawei/:endpoint\<close>\<close>

text \<open>
  The test \<^verbatim>\<open>!body.stationCodes || body.stationCodes.trim() === ''\<close>: \<open>Inr\<close> its value, or
  \<open>Inl\<close> the message of the \<^verbatim>\<open>TypeError\<close> thrown when the value is truthy and has no
  method \<^verbatim>\<open>trim\<close>, which is the case of every JSON value but a string.
\<close>

fun stationCodes_missing :: "'n::zero jsval \<Rightarrow> string + bool" where
  "stationCodes_missing None = Inr True"
| "stationCodes_missing (Some (JStr s)) = Inr (s = [] \<or> trim s = [])"
| "stationCodes_missing (Some v) =
     (if truthy_val v then Inl ''body.stationCodes.trim is not a function'' else Inr True)"

text \<open>The \<^verbatim>\<open>console.warn\<close> lines for the failure codes the handler knows.\<close>

definition known_failures :: "'n::{zero,numeral} json \<Rightarrow> string list" where
  "known_failures data =
     (if \<not> truthy (get_prop data ''success'') then
        if get_prop data ''failCode'' = Some (JNum 407) then
          [''Rate limit hit - ACCESS_FREQUENCY_IS_TOO_HIGH'']
        else if get_prop data ''failCode'' = Some (JNum 20010) then
          [''Invalid station codes provided'']
        else []
      else [])"

definition proxy_request :: "string \<Rightarrow> 'n jsval \<Rightarrow> (string \<times> 'n json) list \<Rightarrow> 'n upstream_request" where
  "proxy_request endpoint xsrfToken body =
     \<lparr>url = ''https://intl.fusionsolar.huawei.com/thirdData/'' @ endpoint,
      http_method = ''POST'',
      headers = [(''Content-Type'', Some (JStr ''application/json'')),
                 (''XSRF-TOKEN'', xsrfToken),
                 (''User-Agent'', Some (JStr ''Solar-Monitor-App/1.0''))],
      payload = JObj body\<rparr>"

text \<open>The handler from the point where \<^verbatim>\<open>response.json()\<close> has delivered \<open>data\<close>.\<close>

definition proxy_success :: "'n upstream_request \<Rightarrow> 'n::{zero,numeral} json \<Rightarrow> 'n outcome" where
  "proxy_success rq data =
     (case data of
        JNull \<Rightarrow> respond 500 (failure_details ''Proxy server error'' (null_read ''success'')) [rq] []
      | _ \<Rightarrow> respond 200 data [rq] (known_failures data))"

text \<open>The handler from the point where \<^verbatim>\<open>fetch\<close> has settled.\<close>

definition proxy_relay ::
  "'n upstream_request \<Rightarrow> 'n::{zero,numeral} fetch_result \<Rightarrow> 'n outcome" where
  "proxy_relay rq settled =
     (case settled of
        Rejected msg \<Rightarrow> respond 500 (failure_details ''Proxy server error'' msg) [rq] []
      | Resolved response \<Rightarrow>
          if \<not> ok response then
            respond (status response)
              (failure (''API error: '' @ show_nat (status response) @ '' '' @
                        statusText response)) [rq] []
          else
            (case json_result response of
               Inl msg \<Rightarrow> respond 500 (failure_details ''Proxy server error'' msg) [rq] []
             | Inr data \<Rightarrow> proxy_success rq data))"

definition proxy_handler ::
  "('n upstream_request \<Rightarrow> 'n fetch_result) \<Rightarrow> string \<Rightarrow>
   (string \<times> 'n::{zero,numeral} json) list \<Rightarrow> 'n outcome" where
  "proxy_handler fetch endpoint req_body =
     (let xsrfToken = map_of req_body ''xsrfToken'';
          body = filter (\<lambda>(k, v). k \<noteq> ''xsrfToken'') req_body
      in
      if \<not> truthy xsrfToken then
        respond 400 (failure ''XSRF token is required'') [] []
      else
        case (if endpoint = ''getStationRealKpi''
              then stationCodes_missing (map_of body ''stationCodes'') else Inr False) of
          Inl msg \<Rightarrow> respond 500 (failure_details ''Proxy server error'' msg) [] []
        | Inr True \<Rightarrow>
            respond 400
              (failure ''stationCodes parameter is required and cannot be empty'') [] []
        | Inr False \<Rightarrow>
            (let rq = proxy_request endpoint xsrfToken body in proxy_relay rq (fetch rq)))"

text \<open>
  A request passes the local validation of the route when its token is truthy and, for
  \<^verbatim>\<open>getStationRealKpi\<close>, its \<^verbatim>\<open>stationCodes\<close> is a string that \<^verbatim>\<open>trim\<close> does not empty.
\<close>

definition validated :: "string \<Rightarrow> (string \<times> 'n::zero json) list \<Rightarrow> bool" where
  "validated endpoint req_body =
     (truthy (map_of req_body ''xsrfToken'') \<and>
      (endpoint = ''getStationRealKpi'' \<longrightarrow>
         (case map_of req_body ''stationCodes'' of
            Some (JStr s) \<Rightarrow> trim s \<noteq> []
          | _ \<Rightarrow> False)))"

text \<open>An upstream that settles every request the same way.\<close>

definition answering :: "'n fetch_result \<Rightarrow> 'n upstream_request \<Rightarrow> 'n fetch_result" where
  "answering r rq = r"

section \<open>The dashboard component\<close>

subsection \<open>State\<close>

text \<open>
  The state of \<^verbatim>\<open>HuaweiSolarApp\<close>, one field for each \<^verbatim>\<open>useState\<close>. \<^verbatim>\<open>lastUpdate\<close> is a
  \<^verbatim>\<open>Date\<close>, kept as its time value.
\<close>

record 'n plant =
  code :: "'n jsval"
  name :: "'n jsval"
  capacity :: string

record credentials =
  userName :: string
  systemCode :: string

record 'n app_state =
  isAuthenticated :: bool
  xsrfToken :: "'n json"
  availablePlants :: "'n plant list"
  selectedPlants :: "'n jsval list"
  realTimeData :: "'n json list"
  loading :: bool
  lastUpdate :: nat
  loginError :: "'n json"
  showPassword :: bool
  credentials :: credentials

text \<open>The state at the first render, at time \<open>now\<close>.\<close>

definition initial_state :: "nat \<Rightarrow> 'n app_state" where
  "initial_state now =
     \<lparr>isAuthenticated = False, xsrfToken = JStr [], availablePlants = [],
      selectedPlants = [], realTimeData = [], loading = False, lastUpdate = now,
      loginError = JStr [], showPassword = False,
      credentials = \<lparr>userName = [], systemCode = []\<rparr>\<rparr>"

definition handleLogout :: "'n app_state \<Rightarrow> 'n app_state" where
  "handleLogout s =
     s\<lparr>isAuthenticated := False,
       xsrfToken := JStr [],
       availablePlants := [],
       selectedPlants := [],
       realTimeData := [],
       credentials := \<lparr>userName = [], systemCode = []\<rparr>,
       loginError := JStr []\<rparr>"

subsection \<open>Numbers\<close>

text \<open>
  The dashboard computes with numbers. On this side a JSON number \<open>JNum r\<close> carries the
  rational \<open>r\<close> that its text denotes, which the parser rounds to a double. A number of
  the language is \<^verbatim>\<open>NaN\<close>, an infinity, or a finite double, given by its value; the two
  zeros are not told apart.
\<close>

datatype number = NaN | PInf | NInf | Fin rat

text \<open>The number of binary digits of a positive integer.\<close>

function bit_length :: "int \<Rightarrow> int" where
  "bit_length n = (if n \<le> 0 then 0 else 1 + bit_length (n div 2))"
  by pat_completeness auto
termination
  by (relation "measure nat") auto

declare bit_length.simps [simp del]

text \<open>
  The double nearest to \<open>p / q\<close>, for \<open>0 < q\<close>, ties to the even significand (IEEE 754
  binary64, round to nearest). With \<open>e\<close> the binary exponent of \<open>\<bar>p\<bar> / q\<close>, the doubles
  around it are the multiples of \<open>2 ^ (e - 52)\<close>, and of \<open>2 ^ (- 1074)\<close> below the normal
  range; a result of \<open>2 ^ 1024\<close> or more is an infinity.
\<close>

definition round_ratio :: "int \<Rightarrow> int \<Rightarrow> number" where
  "round_ratio p q =
     (if p = 0 then Fin 0
      else
        let a = \<bar>p\<bar>;
            d = bit_length a - bit_length q;
            e = (if (if 0 \<le> d then q * 2 ^ nat d \<le> a else q \<le> a * 2 ^ nat (- d))
                 then d else d - 1);
            e' = max e (- 1022);
            s = e' - 52;
            num = (if s < 0 then a * 2 ^ nat (- s) else a);
            den = (if s < 0 then q else q * 2 ^ nat s);
            f = num div den;
            r = num mod den;
            m = (if 2 * r < den then f
                 else if den < 2 * r then f + 1
                 else if even f then f else f + 1)
        in if 1024 \<le> (if m = 2 ^ 53 then e' + 1 else e') then (if 0 < p then PInf else NInf)
           else if s < 0 then Fin (of_int (if 0 < p then m else - m) / of_int (2 ^ nat (- s)))
           else Fin (of_int ((if 0 < p then m else - m) * 2 ^ nat s)))"

definition round_double :: "rat \<Rightarrow> number" where
  "round_double x = (case quotient_of x of (p, q) \<Rightarrow> round_ratio p q)"



subsection \<open>\<^verbatim>\<open>parseFloat\<close>\<close>

definition is_digit :: "char \<Rightarrow> bool" where
  "is_digit c = (c \<in> set ''0123456789'')"

definition digits_value :: "string \<Rightarrow> int" where
  "digits_value ds = foldl (\<lambda>n c. 10 * n + (int (of_char c) - 48)) 0 ds"

text \<open>The double nearest to \<open>m * 10 ^ k\<close>.\<close>

definition round_decimal :: "int \<Rightarrow> int \<Rightarrow> number" where
  "round_decimal m k =
     (if 0 \<le> k then round_ratio (m * 10 ^ nat k) 1 else round_ratio m (10 ^ nat (- k)))"

text \<open>
  The exponent part at the head of \<open>s\<close>: \<^verbatim>\<open>e\<close> or \<^verbatim>\<open>E\<close>, an optional sign, digits. Without a
  digit there is no exponent part, and the value is \<open>0\<close> as well.
\<close>

fun exponent_part :: "string \<Rightarrow> int" where
  "exponent_part [] = 0"
| "exponent_part (c # cs) =
     (if c = CHR ''e'' \<or> c = CHR ''E'' then
        (case cs of
           [] \<Rightarrow> 0
         | d # ds \<Rightarrow>
             if d = CHR ''-'' then - digits_value (takeWhile is_digit ds)
             else if d = CHR ''+'' then digits_value (takeWhile is_digit ds)
             else digits_value (takeWhile is_digit cs))
      else 0)"

text \<open>
  The longest prefix of \<open>s\<close> that is an unsigned decimal literal, as a number:
  \<^verbatim>\<open>Infinity\<close>, or digits with an optional fraction and exponent part, at least one digit
  before the exponent part; \<^verbatim>\<open>NaN\<close> when there is no such prefix.
\<close>

definition parse_unsigned :: "string \<Rightarrow> number" where
  "parse_unsigned s =
     (if prefix ''Infinity'' s then PInf
      else
        let ip = takeWhile is_digit s;
            r1 = dropWhile is_digit s;
            dot = (r1 \<noteq> [] \<and> hd r1 = CHR ''.'');
            fp = (if dot then takeWhile is_digit (tl r1) else []);
            r2 = (if dot then dropWhile is_digit (tl r1) else r1)
        in if ip = [] \<and> fp = [] then NaN
           else round_decimal (digits_value (ip @ fp)) (exponent_part r2 - int (length fp)))"

fun negate :: "number \<Rightarrow> number" where
  "negate NaN = NaN"
| "negate PInf = NInf"
| "negate NInf = PInf"
| "negate (Fin x) = Fin (- x)"

text \<open>\<^verbatim>\<open>parseFloat\<close> on a string: leading white space goes, then an optional sign.\<close>

definition parse_float :: "string \<Rightarrow> number" where
  "parse_float s =
     (case trimStart s of
        [] \<Rightarrow> NaN
      | c # cs \<Rightarrow>
          if c = CHR ''-'' then negate (parse_unsigned cs)
          else if c = CHR ''+'' then parse_unsigned cs
          else parse_unsigned (c # cs))"

text \<open>
  \<^verbatim>\<open>parseFloat(v)\<close> converts \<open>v\<close> to a string and reads it as above. The string of a number
  reads as that number. The strings of \<^verbatim>\<open>null\<close>, of a boolean and of an object hold no
  number. The string of an array is that of its elements, joined by commas: what is
  read is the first element, and nothing when there is none.
\<close>

fun parseFloat :: "rat json \<Rightarrow> number" where
  "parseFloat (JNum r) = round_double r"
| "parseFloat (JStr s) = parse_float s"
| "parseFloat (JArr (x # xs)) = parseFloat x"
| "parseFloat v = NaN"

subsection \<open>Totals\<close>







subsection \<open>What a snapshot holds\<close>


fun reading :: "rat jsval \<Rightarrow> number" where
  "reading None = Fin 0"
| "reading (Some v) = (if truthy_val v then parseFloat v else Fin 0)"

section \<open>White space\<close>

lemma whitespace_prefix_free:
  "\<forall>a \<in> set whitespace. \<forall>b \<in> set whitespace. prefix a b \<longrightarrow> a = b"
  by (simp add: whitespace_def)

lemma whitespace_nonempty: "[] \<notin> set whitespace"
  by (simp add: whitespace_def)

lemma strip_Nil: "strip tbl [] = []"
proof -
  have "find (\<lambda>w. w \<noteq> [] \<and> prefix w []) tbl = None"
    by (simp add: find_None_iff)
  then show ?thesis by (simp add: strip.simps)
qed

text \<open>Stripping a concatenation of words of a prefix-free table leaves nothing.\<close>

lemma strip_concat:
  assumes pf: "\<forall>a \<in> set tbl. \<forall>b \<in> set tbl. prefix a b \<longrightarrow> a = b"
    and ne: "[] \<notin> set tbl"
  shows "set ws \<subseteq> set tbl \<Longrightarrow> strip tbl (concat ws) = []"
proof (induction ws)
  case Nil
  show ?case by (simp add: strip_Nil)
next
  case (Cons w ws)
  let ?s = "w @ concat ws"
  let ?P = "\<lambda>v. v \<noteq> [] \<and> prefix v ?s"
  from Cons.prems have w: "w \<in> set tbl" and ws: "set ws \<subseteq> set tbl" by auto
  from w ne have "w \<noteq> []" by auto
  then have "?P w" by simp
  with w have "\<exists>v \<in> set tbl. ?P v" by blast
  then obtain v where fv: "find ?P tbl = Some v"
    by (cases "find ?P tbl") (auto simp: find_None_iff)
  then have v: "v \<in> set tbl" "prefix v ?s"
    by (auto simp: find_Some_iff)
  have "prefix w ?s" by simp
  with v(2) have "prefix v w \<or> prefix w v"
    using prefix_same_cases by blast
  with pf v(1) w have "v = w" by blast
  with fv have "strip tbl ?s = strip tbl (concat ws)"
    by (simp add: strip.simps [of tbl ?s])
  with Cons.IH [OF ws] show ?case by simp
qed

lemma trim_blank: "blank s \<Longrightarrow> trim s = []"
  using strip_concat [OF whitespace_prefix_free whitespace_nonempty]
  by (auto simp: blank_def trim_def trimStart_def trimEnd_def strip_Nil)

lemma blank_space: "blank '' ''"
  unfolding blank_def by (rule exI [of _ "['' '']"]) (simp add: whitespace_def)

section \<open>Upstream requests of the handlers\<close>

lemma calls_login_success: "calls (login_success rq response data) = [rq]"
  by (simp add: login_success_def respond_def Let_def split: json.split option.split)

lemma calls_login_relay: "calls (login_relay rq settled) = [rq]"
  by (simp add: login_relay_def respond_def calls_login_success split: fetch_result.split sum.split)

lemma calls_proxy_success: "calls (proxy_success rq data) = [rq]"
  by (simp add: proxy_success_def respond_def split: json.split)

lemma calls_proxy_relay: "calls (proxy_relay rq settled) = [rq]"
  by (simp add: proxy_relay_def respond_def calls_proxy_success split: fetch_result.split sum.split)

lemma calls_proxy_handler:
  "set (calls (proxy_handler fetch endpoint body)) \<subseteq>
     {proxy_request endpoint (map_of body ''xsrfToken'')
        (filter (\<lambda>(k, v). k \<noteq> ''xsrfToken'') body)}"
  by (simp add: proxy_handler_def Let_def respond_def calls_proxy_relay
      split: sum.split bool.split)

section \<open>Totals of the dashboard\<close>









section \<open>Local validation\<close>

lemma map_of_rest:
  "map_of (filter (\<lambda>(k, v). k \<noteq> x) kvs) k = (if k = x then None else map_of kvs k)"
  by (induction kvs) auto

lemma stationCodes_missing_True:
  "\<not> truthy sc \<or> (\<exists>s. sc = Some (JStr s) \<and> blank s) \<Longrightarrow> stationCodes_missing sc = Inr True"
proof (cases sc)
  case None
  then show ?thesis by simp
next
  case (Some v)
  assume "\<not> truthy sc \<or> (\<exists>s. sc = Some (JStr s) \<and> blank s)"
  with Some show ?thesis by (cases v) (auto simp: trim_blank)
qed

text \<open>
  Claim C5. A login request whose body has no \<^verbatim>\<open>userName\<close> or no \<^verbatim>\<open>systemCode\<close> (absent or
  falsy) is answered 400 with \<^verbatim>\<open>success: false\<close> and the fixed message, and no upstream
  request is made.
\<close>

theorem login_requires_credentials:
  "\<not> truthy (map_of body ''userName'') \<or> \<not> truthy (map_of body ''systemCode'') \<Longrightarrow>
   login_handler fetch body =
     \<lparr>reply = \<lparr>status_code = 400,
               reply_body = JObj [(''success'', JBool False),
                                  (''error'', JStr ''Username and system code are required'')]\<rparr>,
      calls = [], warnings = []\<rparr>"
  by (auto simp: login_handler_def respond_def failure_def Let_def)

theorem login_requires_credentials_witness:
  "login_handler (answering (Rejected ''unreachable'')) [(''userName'', JStr ''alice'' :: int json)] =
     \<lparr>reply = \<lparr>status_code = 400,
               reply_body = JObj [(''success'', JBool False),
                                  (''error'', JStr ''Username and system code are required'')]\<rparr>,
      calls = [], warnings = []\<rparr>"
  using login_requires_credentials
    [of "[(''userName'', JStr ''alice'' :: int json)]" "answering (Rejected ''unreachable'')"]
  by simp

text \<open>
  Claim C4. A request to the generic route whose body has no \<^verbatim>\<open>xsrfToken\<close> (absent or
  falsy) is answered 400 with \<^verbatim>\<open>success: false\<close> and the message
  \<^verbatim>\<open>XSRF token is required\<close>, and no upstream request is made. The guard is what puts a
  token on every vendor call of the route: each upstream request the handler makes
  comes from a body with a truthy token and carries it in the header \<^verbatim>\<open>XSRF-TOKEN\<close>.
\<close>

theorem proxy_requires_token:
  "(\<not> truthy (map_of body ''xsrfToken'') \<longrightarrow>
      proxy_handler fetch endpoint body =
        \<lparr>reply = \<lparr>status_code = 400,
                  reply_body = JObj [(''success'', JBool False),
                                     (''error'', JStr ''XSRF token is required'')]\<rparr>,
         calls = [], warnings = []\<rparr>) \<and>
   (\<forall>rq \<in> set (calls (proxy_handler fetch endpoint body)).
      truthy (map_of body ''xsrfToken'') \<and>
      map_of (headers rq) ''XSRF-TOKEN'' = Some (map_of body ''xsrfToken''))"
proof (intro conjI impI ballI)
  assume "\<not> truthy (map_of body ''xsrfToken'')"
  then show "proxy_handler fetch endpoint body =
        \<lparr>reply = \<lparr>status_code = 400,
                  reply_body = JObj [(''success'', JBool False),
                                     (''error'', JStr ''XSRF token is required'')]\<rparr>,
         calls = [], warnings = []\<rparr>"
    by (simp add: proxy_handler_def Let_def respond_def failure_def)
next
  fix rq assume rq: "rq \<in> set (calls (proxy_handler fetch endpoint body))"
  show "truthy (map_of body ''xsrfToken'')"
  proof (rule ccontr)
    assume "\<not> truthy (map_of body ''xsrfToken'')"
    then have "calls (proxy_handler fetch endpoint body) = []"
      by (simp add: proxy_handler_def Let_def respond_def)
    with rq show False by simp
  qed
next
  fix rq assume rq: "rq \<in> set (calls (proxy_handler fetch endpoint body))"
  with calls_proxy_handler [of fetch endpoint body]
  have "rq = proxy_request endpoint (map_of body ''xsrfToken'')
               (filter (\<lambda>(k, v). k \<noteq> ''xsrfToken'') body)"
    by blast
  then show "map_of (headers rq) ''XSRF-TOKEN'' = Some (map_of body ''xsrfToken'')"
    by (simp add: proxy_request_def)
qed

theorem proxy_requires_token_witness:
  "proxy_handler (answering (Rejected ''unreachable'')) ''getStationList''
       [(''pageNo'', JNum (1 :: int))] =
     \<lparr>reply = \<lparr>status_code = 400,
               reply_body = JObj [(''success'', JBool False),
                                  (''error'', JStr ''XSRF token is required'')]\<rparr>,
      calls = [], warnings = []\<rparr> \<and>
   calls (proxy_handler (answering (Rejected ''down'')) ''getStationList''
       [(''xsrfToken'', JStr ''tok''), (''pageNo'', JNum (1 :: int))]) =
     [\<lparr>url = ''https://intl.fusionsolar.huawei.com/thirdData/getStationList'',
       http_method = ''POST'',
       headers = [(''Content-Type'', Some (JStr ''application/json'')),
                  (''XSRF-TOKEN'', Some (JStr ''tok'')),
                  (''User-Agent'', Some (JStr ''Solar-Monitor-App/1.0''))],
       payload = JObj [(''pageNo'', JNum 1)]\<rparr>]"
  using proxy_requires_token
    [of "[(''pageNo'', JNum (1 :: int))]" "answering (Rejected ''unreachable'')" "''getStationList''"]
  by (simp add: proxy_handler_def proxy_request_def proxy_relay_def answering_def respond_def Let_def)

text \<open>
  Claim C9. The token is checked before the station codes: a \<^verbatim>\<open>getStationRealKpi\<close>
  request that lacks both the token and the station codes is answered 400 with the
  message \<^verbatim>\<open>XSRF token is required\<close>, not with the message about \<^verbatim>\<open>stationCodes\<close>.
\<close>

theorem token_checked_first:
  assumes "\<not> truthy (map_of body ''xsrfToken'')"
    and "\<not> truthy (map_of body ''stationCodes'') \<or>
         (\<exists>s. map_of body ''stationCodes'' = Some (JStr s) \<and> blank s)"
  shows "reply (proxy_handler fetch ''getStationRealKpi'' body) =
           \<lparr>status_code = 400, reply_body = failure ''XSRF token is required''\<rparr> \<and>
         reply_body (reply (proxy_handler fetch ''getStationRealKpi'' body)) \<noteq>
           failure ''stationCodes parameter is required and cannot be empty''"
  using assms(1) by (simp add: proxy_handler_def Let_def respond_def failure_def)

theorem token_checked_first_witness:
  "reply (proxy_handler (answering (Rejected ''unreachable'')) ''getStationRealKpi''
            ([] :: (string \<times> int json) list)) =
     \<lparr>status_code = 400, reply_body = failure ''XSRF token is required''\<rparr> \<and>
   reply_body (reply (proxy_handler (answering (Rejected ''unreachable'')) ''getStationRealKpi''
            ([] :: (string \<times> int json) list))) \<noteq>
     failure ''stationCodes parameter is required and cannot be empty''"
  using token_checked_first
    [of "[] :: (string \<times> int json) list" "answering (Rejected ''unreachable'')"]
  by (simp add: failure_def)

text \<open>
  Claim C3. A \<^verbatim>\<open>getStationRealKpi\<close> request whose body has a token but whose
  \<^verbatim>\<open>stationCodes\<close> is absent, empty or blank is answered 400 with \<^verbatim>\<open>success: false\<close> and the
  fixed message, and no upstream request is made.
\<close>

theorem proxy_requires_stationCodes:
  assumes "truthy (map_of body ''xsrfToken'')"
    and "\<not> truthy (map_of body ''stationCodes'') \<or>
         (\<exists>s. map_of body ''stationCodes'' = Some (JStr s) \<and> blank s)"
  shows "proxy_handler fetch ''getStationRealKpi'' body =
     \<lparr>reply = \<lparr>status_code = 400,
               reply_body =
                 JObj [(''success'', JBool False),
                       (''error'', JStr ''stationCodes parameter is required and cannot be empty'')]\<rparr>,
      calls = [], warnings = []\<rparr>"
proof -
  have "stationCodes_missing
          (map_of (filter (\<lambda>(k, v). k \<noteq> ''xsrfToken'') body) ''stationCodes'') = Inr True"
    using assms(2) by (simp add: map_of_rest stationCodes_missing_True)
  with assms(1) show ?thesis
    by (simp add: proxy_handler_def Let_def respond_def failure_def)
qed

theorem proxy_requires_stationCodes_witness:
  "proxy_handler (answering (Rejected ''unreachable'')) ''getStationRealKpi''
       [(''xsrfToken'', JStr ''tok''), (''stationCodes'', JStr '' '' :: int json)] =
     \<lparr>reply = \<lparr>status_code = 400,
               reply_body =
                 JObj [(''success'', JBool False),
                       (''error'', JStr ''stationCodes parameter is required and cannot be empty'')]\<rparr>,
      calls = [], warnings = []\<rparr>"
  using proxy_requires_stationCodes
    [of "[(''xsrfToken'', JStr ''tok''), (''stationCodes'', JStr '' '' :: int json)]"
        "answering (Rejected ''unreachable'')"] blank_space
  by simp

section \<open>Relaying\<close>

lemma trim_Nil: "trim [] = []"
  by (simp add: trim_def trimStart_def trimEnd_def strip_Nil)

lemma stationCodes_missing_False:
  "trim s \<noteq> [] \<Longrightarrow> stationCodes_missing (Some (JStr s)) = Inr False"
  using trim_Nil by auto

text \<open>A request that passes validation is handed to \<open>fetch\<close>, once.\<close>

lemma proxy_handler_validated:
  assumes "validated endpoint body"
  shows "proxy_handler fetch endpoint body =
     proxy_relay
       (proxy_request endpoint (map_of body ''xsrfToken'')
          (filter (\<lambda>(k, v). k \<noteq> ''xsrfToken'') body))
       (fetch (proxy_request endpoint (map_of body ''xsrfToken'')
          (filter (\<lambda>(k, v). k \<noteq> ''xsrfToken'') body)))"
proof (cases "endpoint = ''getStationRealKpi''")
  case False
  with assms show ?thesis
    by (simp add: proxy_handler_def validated_def Let_def)
next
  case True
  with assms obtain s where s: "map_of body ''stationCodes'' = Some (JStr s)" "trim s \<noteq> []"
    by (auto simp: validated_def split: option.splits json.splits)
  then have "stationCodes_missing
          (map_of (filter (\<lambda>(k, v). k \<noteq> ''xsrfToken'') body) ''stationCodes'') = Inr False"
    using stationCodes_missing_False [of s] by (simp add: map_of_rest)
  with assms True show ?thesis
    by (simp add: proxy_handler_def validated_def Let_def)
qed

lemma login_handler_valid:
  assumes "truthy (map_of body ''userName'')" "truthy (map_of body ''systemCode'')"
  shows "login_handler fetch body =
     login_relay (login_request (map_of body ''userName'') (map_of body ''systemCode''))
       (fetch (login_request (map_of body ''userName'') (map_of body ''systemCode'')))"
  using assms by (simp add: login_handler_def Let_def)

text \<open>
  Claim C6. On the login route and on the generic route, for a request that passes the
  local validation: when the upstream answers with a status outside 200 to 299, the
  relay answers with the same status and the body \<^verbatim>\<open>{success: false, error}\<close>, where the
  error string holds the upstream status and status text. The witness is an upstream
  500.
\<close>

theorem upstream_failure_mirrored:
  "(truthy (map_of body ''userName'') \<and> truthy (map_of body ''systemCode'') \<and> \<not> ok r \<longrightarrow>
      reply (login_handler (answering (Resolved r)) body) =
        \<lparr>status_code = status r,
         reply_body =
           JObj [(''success'', JBool False),
                 (''error'', JStr (''Login API error: '' @ show_nat (status r) @ '' '' @
                                   statusText r))]\<rparr>) \<and>
   (validated endpoint req_body \<and> \<not> ok r \<longrightarrow>
      reply (proxy_handler (answering (Resolved r)) endpoint req_body) =
        \<lparr>status_code = status r,
         reply_body =
           JObj [(''success'', JBool False),
                 (''error'', JStr (''API error: '' @ show_nat (status r) @ '' '' @
                                   statusText r))]\<rparr>)"
  by (simp add: login_handler_valid proxy_handler_validated answering_def
      login_relay_def proxy_relay_def respond_def failure_def)

theorem upstream_failure_mirrored_witness:
  "reply (login_handler
       (answering (Resolved \<lparr>status = 500, statusText = ''Internal Server Error'',
                             headers_get = map_of [], json_result = Inl ''not read''\<rparr>))
       [(''userName'', JStr ''alice''), (''systemCode'', JStr ''secret'' :: int json)]) =
     \<lparr>status_code = 500,
      reply_body =
        JObj [(''success'', JBool False),
              (''error'', JStr ''Login API error: 500 Internal Server Error'')]\<rparr> \<and>
   reply (proxy_handler
       (answering (Resolved \<lparr>status = 500, statusText = ''Internal Server Error'',
                             headers_get = map_of [], json_result = Inl ''not read''\<rparr>))
       ''getStationRealKpi''
       [(''xsrfToken'', JStr ''tok''), (''stationCodes'', JStr ''NE=1'' :: int json)]) =
     \<lparr>status_code = 500,
      reply_body =
        JObj [(''success'', JBool False),
              (''error'', JStr ''API error: 500 Internal Server Error'')]\<rparr>"
proof -
  have t: "trim ''NE=1'' = ''NE=1''" by code_simp
  have n: "show_nat 500 = ''500''" by code_simp
  show ?thesis
    using upstream_failure_mirrored
      [of "[(''userName'', JStr ''alice''), (''systemCode'', JStr ''secret'' :: int json)]"
          "\<lparr>status = 500, statusText = ''Internal Server Error'',
            headers_get = map_of [], json_result = Inl ''not read''\<rparr>"
          "''getStationRealKpi''"
          "[(''xsrfToken'', JStr ''tok''), (''stationCodes'', JStr ''NE=1'' :: int json)]"]
    by (simp add: validated_def ok_def t n)
qed

text \<open>
  Claim C10. For a request that passes validation, the handler makes one upstream
  request, to the vendor URL of the endpoint. Its body is the request body without the
  field \<^verbatim>\<open>xsrfToken\<close>: that field is gone, every other field reads as in the request body.
  The token travels in the header \<^verbatim>\<open>XSRF-TOKEN\<close>, beside the two fixed headers.
\<close>

theorem forwarded_without_token:
  assumes "validated endpoint req_body"
  shows "\<exists>rq fwd. calls (proxy_handler fetch endpoint req_body) = [rq] \<and>
     url rq = ''https://intl.fusionsolar.huawei.com/thirdData/'' @ endpoint \<and>
     payload rq = JObj fwd \<and>
     fwd = filter (\<lambda>(k, v). k \<noteq> ''xsrfToken'') req_body \<and>
     map_of fwd ''xsrfToken'' = None \<and>
     (\<forall>k. k \<noteq> ''xsrfToken'' \<longrightarrow> map_of fwd k = map_of req_body k) \<and>
     headers rq = [(''Content-Type'', Some (JStr ''application/json'')),
                   (''XSRF-TOKEN'', map_of req_body ''xsrfToken''),
                   (''User-Agent'', Some (JStr ''Solar-Monitor-App/1.0''))]"
  by (simp add: proxy_handler_validated [OF assms] calls_proxy_relay proxy_request_def map_of_rest)

theorem forwarded_without_token_witness:
  "\<exists>rq fwd. calls (proxy_handler (answering (Rejected ''down'')) ''getStationRealKpi''
        [(''xsrfToken'', JStr ''tok''), (''stationCodes'', JStr ''NE=1'' :: int json)]) = [rq] \<and>
     url rq = ''https://intl.fusionsolar.huawei.com/thirdData/getStationRealKpi'' \<and>
     payload rq = JObj fwd \<and>
     fwd = [(''stationCodes'', JStr ''NE=1'')] \<and>
     headers rq = [(''Content-Type'', Some (JStr ''application/json'')),
                   (''XSRF-TOKEN'', Some (JStr ''tok'')),
                   (''User-Agent'', Some (JStr ''Solar-Monitor-App/1.0''))]"
proof -
  have t: "trim ''NE=1'' = ''NE=1''" by code_simp
  show ?thesis
    using forwarded_without_token
      [of "''getStationRealKpi''"
          "[(''xsrfToken'', JStr ''tok''), (''stationCodes'', JStr ''NE=1'' :: int json)]"
          "answering (Rejected ''down'')"]
    by (simp add: validated_def t)
qed

text \<open>
  Claim C7 as stated fails at the upstream body \<^verbatim>\<open>null\<close>. It is JSON, but the handler
  reads \<^verbatim>\<open>data.success\<close> of it: the \<^verbatim>\<open>TypeError\<close> is caught and the relay answers 500.
\<close>

theorem null_body_is_an_error:
  "validated ''getStationList'' [(''xsrfToken'', JStr ''tok'' :: int json)] \<and>
   ok \<lparr>status = 200, statusText = ''OK'', headers_get = map_of [],
       json_result = Inr (JNull :: int json)\<rparr> \<and>
   reply (proxy_handler
       (answering (Resolved \<lparr>status = 200, statusText = ''OK'', headers_get = map_of [],
                             json_result = Inr JNull\<rparr>))
       ''getStationList'' [(''xsrfToken'', JStr ''tok'' :: int json)]) =
     \<lparr>status_code = 500,
      reply_body =
        JObj [(''success'', JBool False), (''error'', JStr ''Proxy server error''),
              (''details'', JStr (null_read ''success''))]\<rparr> \<and>
   reply (proxy_handler
       (answering (Resolved \<lparr>status = 200, statusText = ''OK'', headers_get = map_of [],
                             json_result = Inr JNull\<rparr>))
       ''getStationList'' [(''xsrfToken'', JStr ''tok'' :: int json)]) \<noteq>
     \<lparr>status_code = 200, reply_body = JNull\<rparr>"
  by (simp add: validated_def ok_def proxy_handler_def proxy_request_def proxy_relay_def
      proxy_success_def answering_def respond_def failure_details_def Let_def)

text \<open>
  Claim C7, amended. For a request that passes validation, when the upstream answers
  with a status in 200 to 299 and a JSON body other than \<^verbatim>\<open>null\<close>, the relay answers 200
  with that body unchanged, whatever \<^verbatim>\<open>success\<close> and \<^verbatim>\<open>failCode\<close> it holds: the failure
  codes 407 and 20010 only add a line to the log.
\<close>

theorem success_passed_through:
  assumes "validated endpoint req_body" and "ok r" and "json_result r = Inr data"
    and "data \<noteq> JNull"
  shows "reply (proxy_handler (answering (Resolved r)) endpoint req_body) =
           \<lparr>status_code = 200, reply_body = data\<rparr>"
  using assms(2-4)
  by (cases data)
     (simp_all add: proxy_handler_validated [OF assms(1)] answering_def proxy_relay_def
        proxy_success_def respond_def)

theorem success_passed_through_witness:
  "reply (proxy_handler
       (answering (Resolved \<lparr>status = 200, statusText = ''OK'', headers_get = map_of [],
                             json_result =
                               Inr (JObj [(''success'', JBool False), (''failCode'', JNum 407)])\<rparr>))
       ''getStationList'' [(''xsrfToken'', JStr ''tok'' :: int json)]) =
     \<lparr>status_code = 200,
      reply_body = JObj [(''success'', JBool False), (''failCode'', JNum 407)]\<rparr>"
  using success_passed_through
    [of "''getStationList''" "[(''xsrfToken'', JStr ''tok'' :: int json)]"
        "\<lparr>status = 200, statusText = ''OK'', headers_get = map_of [],
          json_result = Inr (JObj [(''success'', JBool False), (''failCode'', JNum 407)])\<rparr>"
        "JObj [(''success'', JBool False), (''failCode'', JNum 407)]"]
  by (simp add: validated_def ok_def)

text \<open>
  Claim C1 as stated fails at a token header with an empty value. The value is falsy:
  the login handler treats it as no token, and the body goes back without the field.
\<close>

theorem empty_token_header_not_copied:
  "ok \<lparr>status = 200, statusText = ''OK'',
       headers_get = map_of [(''xsrf-token'', ''''), (''XSRF-TOKEN'', '''')],
       json_result = Inr (JObj [(''success'', JBool True)] :: int json)\<rparr> \<and>
   map_of [(''xsrf-token'', ''''), (''XSRF-TOKEN'', '''')] ''XSRF-TOKEN'' = Some '''' \<and>
   reply (login_handler
       (answering (Resolved \<lparr>status = 200, statusText = ''OK'',
                             headers_get = map_of [(''xsrf-token'', ''''), (''XSRF-TOKEN'', '''')],
                             json_result = Inr (JObj [(''success'', JBool True)])\<rparr>))
       [(''userName'', JStr ''alice''), (''systemCode'', JStr ''secret'' :: int json)]) =
     \<lparr>status_code = 200, reply_body = JObj [(''success'', JBool True)]\<rparr> \<and>
   reply (login_handler
       (answering (Resolved \<lparr>status = 200, statusText = ''OK'',
                             headers_get = map_of [(''xsrf-token'', ''''), (''XSRF-TOKEN'', '''')],
                             json_result = Inr (JObj [(''success'', JBool True)])\<rparr>))
       [(''userName'', JStr ''alice''), (''systemCode'', JStr ''secret'' :: int json)]) \<noteq>
     \<lparr>status_code = 200,
      reply_body = JObj [(''success'', JBool True), (''xsrfToken'', JStr '''')]\<rparr>"
  by (simp add: ok_def login_handler_def login_request_def login_relay_def login_success_def
      or_else_def answering_def respond_def Let_def)

text \<open>
  Claim C1, amended. For a login that passes validation, when the upstream answers with
  a status in 200 to 299 and a JSON object: the relay answers 200; if one of the headers
  \<^verbatim>\<open>xsrf-token\<close>, \<^verbatim>\<open>XSRF-TOKEN\<close>, \<^verbatim>\<open>X-XSRF-TOKEN\<close> has a non-empty value, the body is the
  upstream object with the field \<^verbatim>\<open>xsrfToken\<close> set to the first such value in that order;
  if none has, the body is the upstream object unchanged.
\<close>

theorem login_token_copied:
  assumes "truthy (map_of body ''userName'')" and "truthy (map_of body ''systemCode'')"
    and "ok r" and "json_result r = Inr (JObj kvs)"
  shows "reply (login_handler (answering (Resolved r)) body) =
     \<lparr>status_code = 200,
      reply_body =
        (case filter (\<lambda>t. t \<noteq> [])
                (List.map_filter (headers_get r) [''xsrf-token'', ''XSRF-TOKEN'', ''X-XSRF-TOKEN'']) of
           [] \<Rightarrow> JObj kvs
         | t # ts \<Rightarrow> JObj (AList.update ''xsrfToken'' (JStr t) kvs))\<rparr>"
  using assms(3,4)
  by (simp add: login_handler_valid [OF assms(1,2)] answering_def login_relay_def
      login_success_def or_else_def respond_def List.map_filter_def Let_def
      split: option.split)

theorem login_token_copied_witness:
  "reply (login_handler
       (answering (Resolved \<lparr>status = 200, statusText = ''OK'',
                             headers_get = map_of [(''XSRF-TOKEN'', ''x-abc'')],
                             json_result = Inr (JObj [(''success'', JBool True)])\<rparr>))
       [(''userName'', JStr ''alice''), (''systemCode'', JStr ''secret'' :: int json)]) =
     \<lparr>status_code = 200,
      reply_body = JObj [(''success'', JBool True), (''xsrfToken'', JStr ''x-abc'')]\<rparr>"
  using login_token_copied
    [of "[(''userName'', JStr ''alice''), (''systemCode'', JStr ''secret'' :: int json)]"
        "\<lparr>status = 200, statusText = ''OK'',
          headers_get = map_of [(''XSRF-TOKEN'', ''x-abc'')],
          json_result = Inr (JObj [(''success'', JBool True)])\<rparr>"
        "[(''success'', JBool True)]"]
  by (simp add: ok_def List.map_filter_def)

section \<open>Logout\<close>

text \<open>
  Claim C8. After \<open>handleLogout\<close>, whatever the state was, the token is the empty string,
  \<open>isAuthenticated\<close> is false, and the plant list, the selected plants, the telemetry, the
  credentials and the error message have the empty values of the initial state.
\<close>

theorem handleLogout_resets:
  "isAuthenticated (handleLogout s) = False \<and>
   xsrfToken (handleLogout s) = JStr [] \<and>
   availablePlants (handleLogout s) = [] \<and>
   selectedPlants (handleLogout s) = [] \<and>
   realTimeData (handleLogout s) = [] \<and>
   credentials (handleLogout s) = \<lparr>userName = [], systemCode = []\<rparr> \<and>
   loginError (handleLogout s) = JStr [] \<and>
   isAuthenticated (handleLogout s) = isAuthenticated (initial_state now) \<and>
   xsrfToken (handleLogout s) = xsrfToken (initial_state now) \<and>
   availablePlants (handleLogout s) = availablePlants (initial_state now) \<and>
   selectedPlants (handleLogout s) = selectedPlants (initial_state now) \<and>
   realTimeData (handleLogout s) = realTimeData (initial_state now) \<and>
   credentials (handleLogout s) = credentials (initial_state now) \<and>
   loginError (handleLogout s) = loginError (initial_state now)"
  by (simp add: handleLogout_def initial_state_def)

end
